theory Spec2Isabelle
  imports Main "HOL-Library.AList"
begin

section \<open>Python values and helpers\<close>

text \<open>
  The module \<^verbatim>\<open>b4/ty.py\<close> is modelled function by function. Strings are ASCII
  (\<^typ>\<open>string\<close>). An uncaught Python exception and \<^verbatim>\<open>sys.exit(n)\<close> both end the
  run; they are the two ways a modelled function can stop instead of returning.
\<close>

datatype pyexc = ValueError | IndexError | KeyError | FileNotFoundError

datatype stop = Exit nat | Raised pyexc

text \<open>The ASCII characters for which \<^verbatim>\<open>str.isspace\<close> holds.\<close>

definition py_isspace :: "char \<Rightarrow> bool" where
  "py_isspace c \<longleftrightarrow>
     c \<in> set [CHR 0x09, CHR 0x0A, CHR 0x0B, CHR 0x0C, CHR 0x0D,
              CHR 0x1C, CHR 0x1D, CHR 0x1E, CHR 0x1F, CHR 0x20]"

text \<open>\<^verbatim>\<open>s.split()\<close>: the maximal runs of non-whitespace characters.\<close>

fun py_split_acc :: "string \<Rightarrow> string \<Rightarrow> string list" where
  "py_split_acc w [] = (if w = [] then [] else [w])"
| "py_split_acc w (c # cs) =
     (if py_isspace c
      then (if w = [] then py_split_acc [] cs else w # py_split_acc [] cs)
      else py_split_acc (w @ [c]) cs)"

definition py_split :: "string \<Rightarrow> string list" where
  "py_split s = py_split_acc [] s"

text \<open>
  \<^verbatim>\<open>s.split(maxsplit=1)\<close>: leading whitespace is dropped, the first word is cut off,
  and the remainder (without its leading whitespace, with its trailing whitespace) is
  the second element when it is not empty.
\<close>

definition py_split1 :: "string \<Rightarrow> string list" where
  "py_split1 s =
     (let s1 = dropWhile py_isspace s in
      if s1 = [] then []
      else
        let w = takeWhile (\<lambda>c. \<not> py_isspace c) s1;
            r = dropWhile py_isspace (dropWhile (\<lambda>c. \<not> py_isspace c) s1)
        in if r = [] then [w] else [w, r])"

text \<open>\<^verbatim>\<open>s.strip()\<close>.\<close>

definition py_strip :: "string \<Rightarrow> string" where
  "py_strip s = rev (dropWhile py_isspace (rev (dropWhile py_isspace s)))"

section \<open>The collaborators of the module\<close>

text \<open>
  The functions of the package \<^verbatim>\<open>b4\<close> that \<^verbatim>\<open>ty.py\<close> calls are parameters of the model.
  \<^verbatim>\<open>git_run_command gitdir args stdin\<close> gives exit code and standard output;
  \<^verbatim>\<open>git_get_command_lines gitdir args\<close> gives the non-empty output lines.
  The repository does not change during a run, so they are functions of their
  arguments.
\<close>

record backend =
  git_run_command :: "string option \<Rightarrow> string list \<Rightarrow> string option \<Rightarrow> int \<times> string"
  git_get_command_lines :: "string option \<Rightarrow> string list \<Rightarrow> string list"
  git_commit_exists :: "string option \<Rightarrow> string \<Rightarrow> bool"
  git_branch_contains :: "string option \<Rightarrow> string \<Rightarrow> string list"
  get_user_config :: "string \<rightharpoonup> string"
  get_main_config :: "string \<rightharpoonup> string"

text \<open>\<^verbatim>\<open>usercfg['email']\<close> and the like: a missing key raises \<^verbatim>\<open>KeyError\<close>.\<close>

definition cfg_get :: "(string \<rightharpoonup> string) \<Rightarrow> string \<Rightarrow> stop + string" where
  "cfg_get cfg k = (case cfg k of None \<Rightarrow> Inl (Raised KeyError) | Some v \<Rightarrow> Inr v)"

section \<open>Tracked items\<close>

text \<open>
  \<open>body\<close> is the mapping stored in a tracking file, with the keys that the modelled
  functions read; \<open>patches\<close> is the list of (label, patch-id) pairs of a series.
  The keys \<^verbatim>\<open>sentdate\<close> and \<^verbatim>\<open>msgid\<close> are read only where the tracked items are
  printed, and are \<open>None\<close> when the stored mapping lacks them.
  \<open>jsondata\<close> is that mapping after \<^verbatim>\<open>list_tracked\<close> has added its own keys.
\<close>

record body =
  subject :: string
  fromname :: string
  fromemail :: string
  sentdate :: "string option"
  msgid :: "string option"
  patches :: "(string \<times> string) list"

record jsondata = body +
  myname :: string
  myemail :: string
  trackfile :: string
  pr_commit_id :: "string option"
  merge_commit_id :: "string option"

section \<open>The commit index\<close>

text \<open>
  \<^verbatim>\<open>MY_COMMITS\<close> is a dict from patch-id to (commit id, subject); an association list
  keeps the insertion order of the dict, and \<^const>\<open>AList.update\<close> is the assignment
  \<^verbatim>\<open>d[k] = v\<close>. The global variable is passed in and returned (\<open>None\<close> before the
  first call).
\<close>

type_synonym commit_index = "(string \<times> (string \<times> string)) list"

definition git_get_rev_diff :: "backend \<Rightarrow> string option \<Rightarrow> string \<Rightarrow> int \<times> string" where
  "git_get_rev_diff be gitdir rev_id =
     git_run_command be gitdir [''diff'', rev_id @ ''~..'' @ rev_id] None"

text \<open>
  One pass through the body of the loop of \<^verbatim>\<open>get_all_commits\<close>: the key
  \<^verbatim>\<open>chunks[0]\<close> and the value \<^verbatim>\<open>(commit_id, subject)\<close> that the line contributes.
  Unpacking a split that has not two parts raises \<^verbatim>\<open>ValueError\<close>, and \<^verbatim>\<open>chunks[0]\<close> on
  an empty list raises \<^verbatim>\<open>IndexError\<close>. Neither exit code is looked at.
\<close>

definition index_line ::
  "backend \<Rightarrow> string option \<Rightarrow> string \<Rightarrow> stop + (string \<times> (string \<times> string))"
where
  "index_line be gitdir line =
     (case py_split1 line of
        [commit_id, subj] \<Rightarrow>
          (let (ecode, out) = git_get_rev_diff be gitdir commit_id;
               (ecode', out') = git_run_command be None [''patch-id'', ''--stable''] (Some out);
               chunks = py_split out'
           in case chunks of
                [] \<Rightarrow> Inl (Raised IndexError)
              | c # _ \<Rightarrow> Inr (c, (commit_id, subj)))
      | _ \<Rightarrow> Inl (Raised ValueError))"

text \<open>
  The loop over the lines of \<^verbatim>\<open>git log --oneline\<close>, in the order of the listing. The
  dict is updated in place, so an exception leaves the entries made so far.
\<close>

fun index_commits ::
  "backend \<Rightarrow> string option \<Rightarrow> string list \<Rightarrow> commit_index \<Rightarrow> (stop + unit) \<times> commit_index"
where
  "index_commits be gitdir [] acc = (Inr (), acc)"
| "index_commits be gitdir (line # rest) acc =
     (case index_line be gitdir line of
        Inl e \<Rightarrow> (Inl e, acc)
      | Inr (k, v) \<Rightarrow> index_commits be gitdir rest (AList.update k v acc))"

definition get_all_commits ::
  "backend \<Rightarrow> string option \<Rightarrow> string \<Rightarrow> string \<Rightarrow> string option \<Rightarrow> commit_index option
     \<Rightarrow> (stop + commit_index) \<times> commit_index option"
where
  "get_all_commits be gitdir branch since committer MY_COMMITS =
     (case MY_COMMITS of
        Some m \<Rightarrow> (Inr m, Some m)
      | None \<Rightarrow>
          (case (case committer of
                   None \<Rightarrow> cfg_get (get_user_config be) ''email''
                 | Some c \<Rightarrow> Inr c) of
             Inl e \<Rightarrow> (Inl e, Some [])
           | Inr committer' \<Rightarrow>
               (let lines = git_get_command_lines be gitdir
                      [''log'', ''--committer'', committer', ''--no-abbrev'', ''--oneline'',
                       ''--since'', since, branch]
                in if lines = [] then (Inr [], Some [])
                   else (case index_commits be gitdir lines [] of
                           (Inl e, m) \<Rightarrow> (Inl e, Some m)
                         | (Inr _, m) \<Rightarrow> (Inr m, Some m)))))"

section \<open>Locating a patch series\<close>

text \<open>\<^verbatim>\<open>commits[k]\<close>.\<close>

definition dict_get :: "commit_index \<Rightarrow> string \<Rightarrow> stop + (string \<times> string)" where
  "dict_get commits k = (case map_of commits k of None \<Rightarrow> Inl (Raised KeyError) | Some v \<Rightarrow> Inr v)"

text \<open>The loop of \<^verbatim>\<open>auto_locate_series\<close>; \<open>found\<close> is the list built so far.\<close>

fun find_patches ::
  "commit_index \<Rightarrow> (string \<times> string) list \<Rightarrow> (string \<times> string) list
     \<Rightarrow> stop + (string \<times> string) list"
where
  "find_patches commits [] found = Inr found"
| "find_patches commits (patch # rest) found =
     (if snd patch \<in> set (map fst commits)
      then (case dict_get commits (snd patch) of
              Inl e \<Rightarrow> Inl e
            | Inr v \<Rightarrow> find_patches commits rest (found @ [v]))
      else find_patches commits rest found)"

definition auto_locate_series ::
  "backend \<Rightarrow> string option \<Rightarrow> jsondata \<Rightarrow> string \<Rightarrow> string \<Rightarrow> commit_index option
     \<Rightarrow> (stop + (string \<times> string) list option) \<times> commit_index option"
where
  "auto_locate_series be gitdir jsondata branch since MY_COMMITS =
     (case get_all_commits be gitdir branch since None MY_COMMITS of
        (Inl e, MY_COMMITS') \<Rightarrow> (Inl e, MY_COMMITS')
      | (Inr commits, MY_COMMITS') \<Rightarrow>
          (case find_patches commits (patches jsondata) [] of
             Inl e \<Rightarrow> (Inl e, MY_COMMITS')
           | Inr found \<Rightarrow>
               (if length found = length (patches jsondata)
                then (Inr (Some found), MY_COMMITS')
                else (Inr None, MY_COMMITS'))))"

section \<open>Locating a pull request\<close>

definition git_get_merge_id :: "backend \<Rightarrow> string option \<Rightarrow> string \<Rightarrow> string option" where
  "git_get_merge_id be gitdir commit_id =
     (let lines = git_get_command_lines be gitdir
            [''rev-list'', commit_id @ ''..'', ''--ancestry-path'']
      in if length lines = 0 then None else Some (last lines))"

text \<open>
  \<^verbatim>\<open>auto_locate_pr\<close>. The result \<open>Inr None\<close> is the \<^verbatim>\<open>None\<close> of the source, and
  \<^verbatim>\<open>not merge_commit_id\<close> also holds of the empty string.
\<close>

definition auto_locate_pr ::
  "backend \<Rightarrow> string option \<Rightarrow> jsondata \<Rightarrow> string \<Rightarrow> stop + string option"
where
  "auto_locate_pr be gitdir jsondata branch =
     (case pr_commit_id jsondata of
        None \<Rightarrow> Inl (Raised KeyError)
      | Some pr \<Rightarrow>
          if \<not> git_commit_exists be gitdir pr then Inr None
          else
            let onbranches = git_branch_contains be gitdir pr in
            if length onbranches = 0 then Inr None
            else if branch \<notin> set onbranches then Inr None
            else
              (case git_get_merge_id be gitdir pr of
                 None \<Rightarrow> Inr None
               | Some merge_id \<Rightarrow>
                   if merge_id = [] then Inr None
                   else
                     let out = git_get_command_lines be gitdir
                           [''show'', ''--format=%ae'', merge_id] in
                     if out = [] then Inr None
                     else
                       (case cfg_get (get_user_config be) ''email'' of
                          Inl e \<Rightarrow> Inl e
                        | Inr email \<Rightarrow>
                            if email \<notin> set out then Inr None else Inr (Some merge_id))))"

section \<open>The store of tracked items\<close>

text \<open>
  The data directory is the list of its entries in the order of \<^verbatim>\<open>iterdir\<close>, each a
  file name with the modification time and the stored mapping; the names of a
  directory are distinct.
\<close>

record datafile =
  mtime :: nat
  content :: body

type_synonym directory = "(string \<times> datafile) list"

text \<open>\<^verbatim>\<open>s.rfind(c)\<close>: the last position of \<open>c\<close>, or \<open>-1\<close>.\<close>

definition py_rfind :: "char \<Rightarrow> string \<Rightarrow> int" where
  "py_rfind c s =
     (if c \<in> set s
      then int (length s) - 1 - int (length (takeWhile (\<lambda>x. x \<noteq> c) (rev s)))
      else - 1)"

text \<open>\<^verbatim>\<open>Path.suffix\<close> and \<^verbatim>\<open>Path.stem\<close> of a file name, as \<^verbatim>\<open>pathlib\<close> computes them.\<close>

definition path_suffix :: "string \<Rightarrow> string" where
  "path_suffix name =
     (let i = py_rfind (CHR ''.'') name
      in if 0 < i \<and> i < int (length name) - 1 then drop (nat i) name else [])"

definition path_stem :: "string \<Rightarrow> string" where
  "path_stem name =
     (let i = py_rfind (CHR ''.'') name
      in if 0 < i \<and> i < int (length name) - 1 then take (nat i) name else name)"

text \<open>
  \<^verbatim>\<open>os.rename(src, dst)\<close> inside one directory: a missing source raises, an existing
  destination is replaced.
\<close>

definition os_rename :: "directory \<Rightarrow> string \<Rightarrow> string \<Rightarrow> stop + directory" where
  "os_rename d src dst =
     (case map_of d src of
        None \<Rightarrow> Inl (Raised FileNotFoundError)
      | Some f \<Rightarrow> Inr ((dst, f) # filter (\<lambda>e. fst e \<noteq> src \<and> fst e \<noteq> dst) d))"

text \<open>The body of the loop of \<^verbatim>\<open>list_tracked\<close> for one entry with a tracked suffix.\<close>

definition load_tracked :: "(string \<rightharpoonup> string) \<Rightarrow> string \<times> datafile \<Rightarrow> stop + jsondata" where
  "load_tracked usercfg entry =
     (case cfg_get usercfg ''name'' of
        Inl e \<Rightarrow> Inl e
      | Inr name \<Rightarrow>
          (case cfg_get usercfg ''email'' of
             Inl e \<Rightarrow> Inl e
           | Inr email \<Rightarrow>
               Inr \<lparr> subject = subject (content (snd entry)),
                     fromname = fromname (content (snd entry)),
                     fromemail = fromemail (content (snd entry)),
                     sentdate = sentdate (content (snd entry)),
                     msgid = msgid (content (snd entry)),
                     patches = patches (content (snd entry)),
                     myname = name, myemail = email, trackfile = fst entry,
                     pr_commit_id =
                       (if path_suffix (fst entry) = ''.pr''
                        then Some (path_stem (fst entry)) else None),
                     merge_commit_id = None \<rparr>))"

fun list_tracked_loop ::
  "(string \<rightharpoonup> string) \<Rightarrow> directory \<Rightarrow> jsondata list \<Rightarrow> stop + jsondata list"
where
  "list_tracked_loop usercfg [] tracked = Inr tracked"
| "list_tracked_loop usercfg (fullpath # rest) tracked =
     (if path_suffix (fst fullpath) \<notin> set [''.pr'', ''.am'']
      then list_tracked_loop usercfg rest tracked
      else (case load_tracked usercfg fullpath of
              Inl e \<Rightarrow> Inl e
            | Inr jsondata \<Rightarrow> list_tracked_loop usercfg rest (tracked @ [jsondata])))"

text \<open>\<^verbatim>\<open>sorted\<close> is stable, and so is \<^const>\<open>sort_key\<close>.\<close>

definition list_tracked :: "backend \<Rightarrow> directory \<Rightarrow> stop + jsondata list" where
  "list_tracked be d =
     list_tracked_loop (get_user_config be) (sort_key (\<lambda>e. mtime (snd e)) d) []"

section \<open>Writing the thank-you messages\<close>

text \<open>
  The two generators of the message text read templates and format mail; they are
  parameters, and may stop the run (\<^verbatim>\<open>sys.exit(2)\<close> on a missing template).
\<close>

record composer =
  generate_pr_thanks :: "jsondata \<Rightarrow> stop + string"
  generate_am_thanks :: "jsondata \<Rightarrow> stop + string"

text \<open>\<^verbatim>\<open>re.sub(r'\W', '_', s)\<close>, \<^verbatim>\<open>s.lower()\<close> and \<^verbatim>\<open>re.sub(r'_+', '_', s)\<close> on ASCII.\<close>

definition is_word :: "char \<Rightarrow> bool" where
  "is_word c \<longleftrightarrow>
     (let n = (of_char c :: nat)
      in (48 \<le> n \<and> n \<le> 57) \<or> (65 \<le> n \<and> n \<le> 90) \<or> (97 \<le> n \<and> n \<le> 122) \<or> n = 95)"

definition sub_nonword :: "string \<Rightarrow> string" where
  "sub_nonword s = map (\<lambda>c. if is_word c then c else CHR ''_'') s"

definition py_lower :: "string \<Rightarrow> string" where
  "py_lower s =
     map (\<lambda>c. case map_of (zip ''ABCDEFGHIJKLMNOPQRSTUVWXYZ'' ''abcdefghijklmnopqrstuvwxyz'') c of
                 None \<Rightarrow> c | Some l \<Rightarrow> l) s"

fun squeeze_underscores :: "string \<Rightarrow> string" where
  "squeeze_underscores (a # b # cs) =
     (if a = CHR ''_'' \<and> b = CHR ''_'' then squeeze_underscores (b # cs)
      else a # squeeze_underscores (b # cs))"
| "squeeze_underscores cs = cs"

definition slug_of :: "jsondata \<Rightarrow> string" where
  "slug_of jsondata =
     squeeze_underscores
       (py_lower (sub_nonword (fromemail jsondata)) @ ''_'' @ py_lower (sub_nonword (subject jsondata)))"

text \<open>
  The state that a run changes: the global \<^verbatim>\<open>MY_COMMITS\<close>, the data directory, and
  the output directory named by \<^verbatim>\<open>cmdargs.outdir\<close> (\<open>None\<close> while it does not
  exist, else its files with their contents).
\<close>

record world =
  MY_COMMITS :: "commit_index option"
  datadir :: directory
  outdir :: "(string \<times> string) list option"

text \<open>The loop of \<^verbatim>\<open>send_messages\<close>: write the message, then rename the tracking file.\<close>

fun send_messages_loop :: "composer \<Rightarrow> jsondata list \<Rightarrow> world \<Rightarrow> (stop + unit) \<times> world" where
  "send_messages_loop cp [] w = (Inr (), w)"
| "send_messages_loop cp (jsondata # rest) w =
     (case (if pr_commit_id jsondata \<noteq> None
            then generate_pr_thanks cp jsondata else generate_am_thanks cp jsondata) of
        Inl e \<Rightarrow> (Inl e, w)
      | Inr msg \<Rightarrow>
          (case outdir w of
             None \<Rightarrow> (Inl (Raised FileNotFoundError), w)
           | Some files \<Rightarrow>
               (let w1 = w\<lparr>outdir := Some (AList.update (slug_of jsondata @ ''.thanks'') msg files)\<rparr>
                in case os_rename (datadir w1) (trackfile jsondata) (trackfile jsondata @ ''.sent'') of
                     Inl e \<Rightarrow> (Inl e, w1)
                   | Inr d \<Rightarrow> send_messages_loop cp rest (w1\<lparr>datadir := d\<rparr>))))"

definition send_messages :: "composer \<Rightarrow> jsondata list \<Rightarrow> world \<Rightarrow> (stop + unit) \<times> world" where
  "send_messages cp listing w =
     send_messages_loop cp listing (if outdir w = None then w\<lparr>outdir := Some []\<rparr> else w)"

section \<open>Selections by number\<close>

text \<open>
  \<^verbatim>\<open>int(num)\<close> on an ASCII string: surrounding whitespace, one optional sign, decimal
  digits, single underscores between digits; anything else raises \<^verbatim>\<open>ValueError\<close>.
  The whitespace that \<^verbatim>\<open>int\<close> strips is tab, line feed, vertical tab, form feed,
  carriage return and space; the separators \<open>0x1C\<close> to \<open>0x1F\<close>, which \<^verbatim>\<open>str.strip\<close>
  removes, are not among them.
\<close>

definition int_isspace :: "char \<Rightarrow> bool" where
  "int_isspace c \<longleftrightarrow>
     c \<in> set [CHR 0x09, CHR 0x0A, CHR 0x0B, CHR 0x0C, CHR 0x0D, CHR 0x20]"

definition int_strip :: "string \<Rightarrow> string" where
  "int_strip s = rev (dropWhile int_isspace (rev (dropWhile int_isspace s)))"

definition py_isdigit :: "char \<Rightarrow> bool" where
  "py_isdigit c \<longleftrightarrow> c \<in> set ''0123456789''"

definition digit_val :: "char \<Rightarrow> int" where
  "digit_val c = int (length (takeWhile (\<lambda>d. d \<noteq> c) ''0123456789''))"

fun parse_digits :: "int \<Rightarrow> string \<Rightarrow> pyexc + int" where
  "parse_digits acc [] = Inr acc"
| "parse_digits acc [c] =
     (if py_isdigit c then Inr (10 * acc + digit_val c) else Inl ValueError)"
| "parse_digits acc (c # d # cs) =
     (if py_isdigit c then parse_digits (10 * acc + digit_val c) (d # cs)
      else if c = CHR ''_'' \<and> py_isdigit d then parse_digits (10 * acc + digit_val d) cs
      else Inl ValueError)"

definition parse_unsigned :: "string \<Rightarrow> pyexc + int" where
  "parse_unsigned s =
     (case s of
        [] \<Rightarrow> Inl ValueError
      | c # cs \<Rightarrow> if py_isdigit c then parse_digits (digit_val c) cs else Inl ValueError)"

definition py_int :: "string \<Rightarrow> pyexc + int" where
  "py_int s =
     (case int_strip s of
        [] \<Rightarrow> Inl ValueError
      | c # cs \<Rightarrow>
          if c = CHR ''-'' then map_sum id uminus (parse_unsigned cs)
          else if c = CHR ''+'' then parse_unsigned cs
          else parse_unsigned (c # cs))"

text \<open>
  \<^verbatim>\<open>xs[i]\<close>: an index below zero counts from the end of the list, and an index outside
  \<open>-len \<dots> len-1\<close> raises \<^verbatim>\<open>IndexError\<close>.
\<close>

definition py_getitem :: "'a list \<Rightarrow> int \<Rightarrow> pyexc + 'a" where
  "py_getitem xs i =
     (if 0 \<le> i \<and> i < int (length xs) then Inr (xs ! nat i)
      else if i < 0 \<and> - int (length xs) \<le> i then Inr (xs ! nat (int (length xs) + i))
      else Inl IndexError)"

text \<open>
  \<^verbatim>\<open>write_tracked\<close> prints every tracked item. What it prints is left out; what can
  end the run is kept: \<^verbatim>\<open>entry['sentdate']\<close>, \<^verbatim>\<open>config['linkmask']\<close> and
  \<^verbatim>\<open>entry['msgid']\<close>, read in this order for each item, raise \<^verbatim>\<open>KeyError\<close> when the
  key is missing. The mask is taken to be a format with one \<^verbatim>\<open>%s\<close>, as the one that
  \<^verbatim>\<open>b4\<close> sets.
\<close>

fun write_tracked_loop :: "(string \<rightharpoonup> string) \<Rightarrow> jsondata list \<Rightarrow> stop + unit" where
  "write_tracked_loop config [] = Inr ()"
| "write_tracked_loop config (entry # rest) =
     (case sentdate entry of
        None \<Rightarrow> Inl (Raised KeyError)
      | Some d \<Rightarrow>
          (case cfg_get config ''linkmask'' of
             Inl e \<Rightarrow> Inl e
           | Inr linkmask \<Rightarrow>
               (case msgid entry of
                  None \<Rightarrow> Inl (Raised KeyError)
                | Some m \<Rightarrow> write_tracked_loop config rest)))"

definition write_tracked :: "backend \<Rightarrow> jsondata list \<Rightarrow> stop + unit" where
  "write_tracked be tracked = write_tracked_loop (get_main_config be) tracked"

text \<open>
  The selection loop shared by \<^verbatim>\<open>send_selected\<close> and \<^verbatim>\<open>discard_selected\<close>: both
  handlers print the tracked items and then end the run with status 1, and no other
  exception can arise in the \<^verbatim>\<open>try\<close> block.
\<close>

fun select_tracked ::
  "backend \<Rightarrow> jsondata list \<Rightarrow> string list \<Rightarrow> jsondata list \<Rightarrow> stop + jsondata list"
where
  "select_tracked be tracked [] listing = Inr listing"
| "select_tracked be tracked (num # rest) listing =
     (case py_int num of
        Inl ValueError \<Rightarrow>
          (case write_tracked be tracked of Inl e \<Rightarrow> Inl e | Inr u \<Rightarrow> Inl (Exit 1))
      | Inl e \<Rightarrow> Inl (Raised e)
      | Inr n \<Rightarrow>
          (case py_getitem tracked (n - 1) of
             Inl IndexError \<Rightarrow>
               (case write_tracked be tracked of Inl e \<Rightarrow> Inl e | Inr u \<Rightarrow> Inl (Exit 1))
           | Inl e \<Rightarrow> Inl (Raised e)
           | Inr jsondata \<Rightarrow> select_tracked be tracked rest (listing @ [jsondata])))"

section \<open>The commands\<close>

text \<open>
  The parsed command line. \<open>branch\<close> is \<open>None\<close> when no branch was asked for;
  \<open>send\<close> and \<open>discard\<close> are empty when the option was not given.
\<close>

record cmdargs =
  gitdir :: "string option"
  branch :: "string option"
  since :: string
  auto :: bool
  send :: "string list"
  discard :: "string list"

text \<open>The first part of \<^verbatim>\<open>auto_thankanator\<close>: the branch to look at.\<close>

definition want_branch :: "backend \<Rightarrow> cmdargs \<Rightarrow> stop + string" where
  "want_branch be args =
     (if branch args = None \<or> branch args = Some []
      then (let (ecode, out) = git_run_command be (gitdir args) [''branch'', ''--show-current''] None
            in if ecode > 0 then Inl (Exit 1) else Inr (py_strip out))
      else (let lines = git_get_command_lines be (gitdir args)
                  [''branch'', ''--format=%(refname:short)'', ''--list'']
            in if length lines = 0 then Inl (Exit 1)
               else (case branch args of
                       None \<Rightarrow> Inl (Exit 1)
                     | Some b \<Rightarrow> if b \<notin> set lines then Inl (Exit 1) else Inr b)))"

text \<open>
  The loop of \<^verbatim>\<open>auto_thankanator\<close> over the tracked items; \<open>my\<close> is the global
  \<^verbatim>\<open>MY_COMMITS\<close>.
\<close>

fun locate_applied ::
  "backend \<Rightarrow> cmdargs \<Rightarrow> string \<Rightarrow> jsondata list \<Rightarrow> jsondata list \<Rightarrow> commit_index option
     \<Rightarrow> (stop + jsondata list) \<times> commit_index option"
where
  "locate_applied be args wantbranch [] applied my = (Inr applied, my)"
| "locate_applied be args wantbranch (jsondata # rest) applied my =
     (if pr_commit_id jsondata \<noteq> None
      then (case auto_locate_pr be (gitdir args) jsondata wantbranch of
              Inl e \<Rightarrow> (Inl e, my)
            | Inr None \<Rightarrow> locate_applied be args wantbranch rest applied my
            | Inr (Some merge_id) \<Rightarrow>
                locate_applied be args wantbranch rest
                  (applied @ [jsondata\<lparr>merge_commit_id := Some merge_id\<rparr>]) my)
      else (case auto_locate_series be (gitdir args) jsondata wantbranch (since args) my of
              (Inl e, my') \<Rightarrow> (Inl e, my')
            | (Inr None, my') \<Rightarrow> locate_applied be args wantbranch rest applied my'
            | (Inr (Some found), my') \<Rightarrow>
                locate_applied be args wantbranch rest (applied @ [jsondata]) my'))"

text \<open>\<^verbatim>\<open>auto_thankanator\<close>; every path through it ends in \<^verbatim>\<open>sys.exit\<close> or an exception.\<close>

definition auto_thankanator ::
  "backend \<Rightarrow> composer \<Rightarrow> cmdargs \<Rightarrow> world \<Rightarrow> (stop + unit) \<times> world"
where
  "auto_thankanator be cp args w =
     (case want_branch be args of
        Inl e \<Rightarrow> (Inl e, w)
      | Inr wantbranch \<Rightarrow>
          (case list_tracked be (datadir w) of
             Inl e \<Rightarrow> (Inl e, w)
           | Inr tracked \<Rightarrow>
               if length tracked = 0 then (Inl (Exit 0), w)
               else
                 (case locate_applied be args wantbranch tracked [] (MY_COMMITS w) of
                    (Inl e, my) \<Rightarrow> (Inl e, w\<lparr>MY_COMMITS := my\<rparr>)
                  | (Inr applied, my) \<Rightarrow>
                      if length applied = 0 then (Inl (Exit 0), w\<lparr>MY_COMMITS := my\<rparr>)
                      else
                        (case send_messages cp applied (w\<lparr>MY_COMMITS := my\<rparr>) of
                           (Inl e, w') \<Rightarrow> (Inl e, w')
                         | (Inr u, w') \<Rightarrow> (Inl (Exit 0), w')))))"

definition send_selected ::
  "backend \<Rightarrow> composer \<Rightarrow> cmdargs \<Rightarrow> world \<Rightarrow> (stop + unit) \<times> world"
where
  "send_selected be cp args w =
     (case list_tracked be (datadir w) of
        Inl e \<Rightarrow> (Inl e, w)
      | Inr tracked \<Rightarrow>
          if length tracked = 0 then (Inl (Exit 0), w)
          else
            (case select_tracked be tracked (send args) [] of
               Inl e \<Rightarrow> (Inl e, w)
             | Inr listing \<Rightarrow>
                 if length listing = 0 then (Inl (Exit 0), w)
                 else send_messages cp listing w))"

text \<open>The loop of \<^verbatim>\<open>discard_selected\<close> that renames the tracking files.\<close>

fun discard_loop :: "jsondata list \<Rightarrow> directory \<Rightarrow> (stop + unit) \<times> directory" where
  "discard_loop [] d = (Inr (), d)"
| "discard_loop (jsondata # rest) d =
     (case os_rename d (trackfile jsondata) (trackfile jsondata @ ''.discarded'') of
        Inl e \<Rightarrow> (Inl e, d)
      | Inr d' \<Rightarrow> discard_loop rest d')"

definition discard_selected :: "backend \<Rightarrow> cmdargs \<Rightarrow> world \<Rightarrow> (stop + unit) \<times> world" where
  "discard_selected be args w =
     (case list_tracked be (datadir w) of
        Inl e \<Rightarrow> (Inl e, w)
      | Inr tracked \<Rightarrow>
          if length tracked = 0 then (Inl (Exit 0), w)
          else
            (case (if ''_all'' \<in> set (discard args) then Inr tracked
                   else select_tracked be tracked (discard args) []) of
               Inl e \<Rightarrow> (Inl e, w)
             | Inr listing \<Rightarrow>
                 if length listing = 0 then (Inl (Exit 0), w)
                 else
                   (case discard_loop listing (datadir w) of
                      (Inl e, d) \<Rightarrow> (Inl e, w\<lparr>datadir := d\<rparr>)
                    | (Inr u, d) \<Rightarrow> (Inl (Exit 0), w\<lparr>datadir := d\<rparr>))))"

definition check_stale_thanks :: "(string \<times> string) list option \<Rightarrow> stop + unit" where
  "check_stale_thanks out =
     (case out of
        None \<Rightarrow> Inr ()
      | Some files \<Rightarrow>
          if list_ex (\<lambda>entry. path_suffix (fst entry) = ''.thanks'') files
          then Inl (Exit 1) else Inr ())"

text \<open>
  \<^verbatim>\<open>main\<close>, with its calls in the order of the source. \<open>Inr ()\<close> is the return
  from \<^verbatim>\<open>main\<close>; the log lines themselves are left out.
\<close>

definition main :: "backend \<Rightarrow> composer \<Rightarrow> cmdargs \<Rightarrow> world \<Rightarrow> (stop + unit) \<times> world" where
  "main be cp args w =
     (if get_user_config be ''email'' = None then (Inl (Exit 1), w)
      else if auto args then
        (case auto_thankanator be cp args w of
           (Inl e, w') \<Rightarrow> (Inl e, w')
         | (Inr u, w') \<Rightarrow> (check_stale_thanks (outdir w'), w'))
      else if send args \<noteq> [] then
        (case send_selected be cp args w of
           (Inl e, w') \<Rightarrow> (Inl e, w')
         | (Inr u, w') \<Rightarrow> (check_stale_thanks (outdir w'), w'))
      else if discard args \<noteq> [] then discard_selected be args w
      else
        (case list_tracked be (datadir w) of
           Inl e \<Rightarrow> (Inl e, w)
         | Inr tracked \<Rightarrow>
             if length tracked = 0 then (Inl (Exit 0), w)
             else (case write_tracked be tracked of
                     Inl e \<Rightarrow> (Inl e, w)
                   | Inr u \<Rightarrow> (Inr (), w))))"

section \<open>Transitions of the store\<close>











section \<open>A small repository and store\<close>

text \<open>
  A backend that answers as git would in this repository, for a local user with the
  address \<open>me\<close>. Branch \<^verbatim>\<open>main\<close> has the user's commits \<^verbatim>\<open>c2\<close> (the newer one) and
  \<^verbatim>\<open>c1\<close>, with patch-ids \<^verbatim>\<open>p2\<close> and \<^verbatim>\<open>p1\<close>; \<^verbatim>\<open>git log\<close> lists the newest commit
  first. Branch \<^verbatim>\<open>dup\<close> has \<^verbatim>\<open>c4\<close> (newer) and \<^verbatim>\<open>c3\<close> (older) with the same
  change, hence the same patch-id \<^verbatim>\<open>p\<close>. Branch \<^verbatim>\<open>fresh\<close> has \<^verbatim>\<open>c1\<close> on top of the
  root commit \<^verbatim>\<open>c0\<close>, which has no parent: \<^verbatim>\<open>git diff c0~..c0\<close> fails with status 128
  and prints nothing, and \<^verbatim>\<open>git patch-id\<close> prints nothing for an empty input.
  The pull request commit \<^verbatim>\<open>X\<close> was merged into \<^verbatim>\<open>main\<close> by the merge commit \<^verbatim>\<open>M\<close>,
  and the checked-out branch \<^verbatim>\<open>topic\<close> still ends at \<^verbatim>\<open>X\<close>, so nothing lies between
  \<^verbatim>\<open>X\<close> and \<^verbatim>\<open>HEAD\<close>. The pull request commit \<^verbatim>\<open>Y\<close> is below \<^verbatim>\<open>HEAD\<close>; the first
  commit after it, \<^verbatim>\<open>N\<close>, was authored by \<^verbatim>\<open>alice@example.com\<close> and adds one line to a
  file, so \<^verbatim>\<open>git show\<close> prints the author's address and then the patch.
\<close>

definition demo_run :: "string option \<Rightarrow> string list \<Rightarrow> string option \<Rightarrow> int \<times> string" where
  "demo_run gd args stdin =
     (if args = [''diff'', ''c1~..c1''] then (0, ''d1'')
      else if args = [''diff'', ''c2~..c2''] then (0, ''d2'')
      else if args = [''diff'', ''c3~..c3''] then (0, ''d'')
      else if args = [''diff'', ''c4~..c4''] then (0, ''d'')
      else if args = [''patch-id'', ''--stable''] \<and> stdin = Some ''d1'' then (0, ''p1 0'')
      else if args = [''patch-id'', ''--stable''] \<and> stdin = Some ''d2'' then (0, ''p2 0'')
      else if args = [''patch-id'', ''--stable''] \<and> stdin = Some ''d'' then (0, ''p 0'')
      else if args = [''patch-id'', ''--stable''] then (0, [])
      else if args = [''branch'', ''--show-current''] then (0, ''topic'')
      else (128, []))"

definition demo_lines :: "string \<Rightarrow> string option \<Rightarrow> string list \<Rightarrow> string list" where
  "demo_lines me gd args =
     (if args = [''log'', ''--committer'', me, ''--no-abbrev'', ''--oneline'',
                 ''--since'', ''1.week'', ''main'']
      then [''c2 subj2'', ''c1 subj1'']
      else if args = [''log'', ''--committer'', me, ''--no-abbrev'', ''--oneline'',
                 ''--since'', ''1.week'', ''dup'']
      then [''c4 new'', ''c3 old'']
      else if args = [''log'', ''--committer'', me, ''--no-abbrev'', ''--oneline'',
                 ''--since'', ''1.week'', ''fresh'']
      then [''c1 subj1'', ''c0 init'']
      else if args = [''branch'', ''--format=%(refname:short)'', ''--list'']
      then [''dup'', ''fresh'', ''main'', ''topic'']
      else if args = [''rev-list'', ''X..main'', ''--ancestry-path''] then [''M'']
      else if args = [''rev-list'', ''Y..'', ''--ancestry-path''] then [''T'', ''N'']
      else if args = [''show'', ''--format=%ae'', ''M''] then [''bob@example.com'']
      else if args = [''show'', ''--format=%ae'', ''N'']
      then [''alice@example.com'', ''diff --git a/f b/f'', ''--- a/f'', ''+++ b/f'',
            ''@@ -1 +1,2 @@'', '' x'', ''+bob@example.com'']
      else [])"

definition demo_git :: "string \<Rightarrow> backend" where
  "demo_git me =
     \<lparr> git_run_command = demo_run,
       git_get_command_lines = demo_lines me,
       git_commit_exists = (\<lambda>gd c. c \<in> set [''X'', ''Y'']),
       git_branch_contains =
         (\<lambda>gd c. if c = ''X'' then [''main'', ''topic'']
                  else if c = ''Y'' then [''main'', ''topic''] else []),
       get_user_config = [''email'' \<mapsto> me, ''name'' \<mapsto> ''Bob''],
       get_main_config = [''linkmask'' \<mapsto> ''https://lore.kernel.org/r/%s''] \<rparr>"

definition demo_composer :: composer where
  "demo_composer =
     \<lparr> generate_pr_thanks = (\<lambda>j. Inr ''Merged''), generate_am_thanks = (\<lambda>j. Inr ''Applied'') \<rparr>"

text \<open>
  The store holds one tracked series of two patches, and the output directory still
  has a message of an earlier run that was never sent.
\<close>

definition demo_series :: body where
  "demo_series =
     \<lparr> subject = ''fix'', fromname = ''Carol'', fromemail = ''c@x.org'',
       sentdate = Some ''Mon, 2 Nov 2020'', msgid = Some ''1@x.org'',
       patches = [(''1/2'', ''p1''), (''2/2'', ''p2'')] \<rparr>"

definition demo_world :: world where
  "demo_world =
     \<lparr> MY_COMMITS = None,
       datadir = [(''s.am'', \<lparr> mtime = 1, content = demo_series \<rparr>)],
       outdir = Some [(''old.thanks'', ''Earlier'')] \<rparr>"

definition demo_args :: cmdargs where
  "demo_args =
     \<lparr> gitdir = None, branch = Some ''main'', since = ''1.week'',
       auto = False, send = [], discard = [] \<rparr>"

text \<open>The series as \<^verbatim>\<open>list_tracked\<close> returns it, or a pull request item for a commit.\<close>

definition demo_item :: "(string \<times> string) list \<Rightarrow> string option \<Rightarrow> jsondata" where
  "demo_item ps pr =
     \<lparr> subject = ''fix'', fromname = ''Carol'', fromemail = ''c@x.org'',
       sentdate = Some ''Mon, 2 Nov 2020'', msgid = Some ''1@x.org'', patches = ps,
       myname = ''Bob'', myemail = ''bob@example.com'', trackfile = ''s.am'',
       pr_commit_id = pr, merge_commit_id = None \<rparr>"




section \<open>Evaluation on the small repository\<close>

lemmas demo_simps =
  demo_git_def demo_lines_def demo_run_def cfg_get_def git_get_rev_diff_def
  py_split1_def py_split_def py_isspace_def index_line_def

lemma demo_index_main:
  "get_all_commits (demo_git ''bob@example.com'') None ''main'' ''1.week'' None None =
     (Inr [(''p2'', ''c2'', ''subj2''), (''p1'', ''c1'', ''subj1'')],
      Some [(''p2'', ''c2'', ''subj2''), (''p1'', ''c1'', ''subj1'')])"
  by (simp add: get_all_commits_def demo_simps)

section \<open>Series matching\<close>

text \<open>
  The loop of \<^verbatim>\<open>auto_locate_series\<close> never raises, and what it appends to \<open>found\<close>
  are the index entries of those patches that have one, in the order of the patches.
\<close>

lemma find_patches_Inr:
  "\<exists>fs. find_patches commits ps found = Inr (found @ fs) \<and>
     map Some fs = map (\<lambda>p. map_of commits (snd p))
                     (filter (\<lambda>p. map_of commits (snd p) \<noteq> None) ps)"
proof (induction ps arbitrary: found)
  case Nil
  show ?case by simp
next
  case (Cons patch rest)
  show ?case
  proof (cases "map_of commits (snd patch)")
    case None
    then have "snd patch \<notin> set (map fst commits)"
      by (simp add: map_of_eq_None_iff)
    with None Cons.IH [of found] show ?thesis by simp
  next
    case (Some v)
    then have "snd patch \<in> set (map fst commits)"
      using map_of_eq_None_iff [of commits "snd patch"] by simp
    moreover obtain fs where
      "find_patches commits rest (found @ [v]) = Inr ((found @ [v]) @ fs)"
      "map Some fs = map (\<lambda>p. map_of commits (snd p))
                       (filter (\<lambda>p. map_of commits (snd p) \<noteq> None) rest)"
      using Cons.IH [of "found @ [v]"] by blast
    ultimately show ?thesis using Some
      by (simp add: dict_get_def)
  qed
qed

lemma filter_shorter:
  "x \<in> set xs \<Longrightarrow> \<not> P x \<Longrightarrow> length (filter P xs) < length xs"
  by (induction xs) (auto simp: less_Suc_eq_le)

text \<open>
  C1. \<^verbatim>\<open>auto_locate_series\<close> is all-or-nothing. Let \<open>commits\<close> be the index that
  \<^verbatim>\<open>get_all_commits\<close> returns. If some (label, patch-id) pair of the item has no entry
  in \<open>commits\<close>, the result is \<^verbatim>\<open>None\<close>; and whenever a list is returned, it is as
  long as the item's patch list.
\<close>

theorem auto_locate_series_all_or_nothing:
  assumes "get_all_commits be gd br sn None my = (Inr commits, my')"
  shows "((\<exists>patch \<in> set (patches jsondata). map_of commits (snd patch) = None) \<longrightarrow>
            auto_locate_series be gd jsondata br sn my = (Inr None, my'))
         \<and> (\<forall>found. fst (auto_locate_series be gd jsondata br sn my) = Inr (Some found)
               \<longrightarrow> length found = length (patches jsondata))"
proof -
  obtain fs where fs: "find_patches commits (patches jsondata) [] = Inr fs"
    and m: "map Some fs = map (\<lambda>p. map_of commits (snd p))
                     (filter (\<lambda>p. map_of commits (snd p) \<noteq> None) (patches jsondata))"
    using find_patches_Inr [of commits "patches jsondata" "[]"] by auto
  have len: "length fs = length (filter (\<lambda>p. map_of commits (snd p) \<noteq> None) (patches jsondata))"
    using arg_cong [OF m, of length] by simp
  have short: "length fs \<noteq> length (patches jsondata)"
    if "\<exists>patch \<in> set (patches jsondata). map_of commits (snd patch) = None"
  proof -
    from that obtain patch where "patch \<in> set (patches jsondata)"
      "\<not> map_of commits (snd patch) \<noteq> None" by auto
    then show ?thesis
      using filter_shorter [of patch "patches jsondata" "\<lambda>p. map_of commits (snd p) \<noteq> None"] len
      by simp
  qed
  have run: "auto_locate_series be gd jsondata br sn my =
      (if length fs = length (patches jsondata) then (Inr (Some fs), my')
       else (Inr None, my'))"
    using assms fs by (simp add: auto_locate_series_def)
  show ?thesis
  proof (intro conjI impI allI)
    assume "\<exists>patch \<in> set (patches jsondata). map_of commits (snd patch) = None"
    then show "auto_locate_series be gd jsondata br sn my = (Inr None, my')"
      using short run by simp
  next
    fix found
    assume "fst (auto_locate_series be gd jsondata br sn my) = Inr (Some found)"
    then show "length found = length (patches jsondata)"
      using run by (simp split: if_splits)
  qed
qed

text \<open>
  The index of branch \<^verbatim>\<open>main\<close> has \<^verbatim>\<open>p1\<close> and \<^verbatim>\<open>p2\<close>. A series with the patch-ids
  \<^verbatim>\<open>p1\<close> and \<^verbatim>\<open>p9\<close> is not matched, and the series with \<^verbatim>\<open>p1\<close> and \<^verbatim>\<open>p2\<close> gets a
  list of two commits.
\<close>

theorem auto_locate_series_all_or_nothing_witness:
  "get_all_commits (demo_git ''bob@example.com'') None ''main'' ''1.week'' None None =
     (Inr [(''p2'', ''c2'', ''subj2''), (''p1'', ''c1'', ''subj1'')],
      Some [(''p2'', ''c2'', ''subj2''), (''p1'', ''c1'', ''subj1'')])
   \<and> (\<exists>patch \<in> set (patches (demo_item [(''1/2'', ''p1''), (''2/2'', ''p9'')] None)).
         map_of [(''p2'', ''c2'', ''subj2''), (''p1'', ''c1'', ''subj1'')] (snd patch) = None)
   \<and> auto_locate_series (demo_git ''bob@example.com'') None
         (demo_item [(''1/2'', ''p1''), (''2/2'', ''p9'')] None) ''main'' ''1.week'' None =
       (Inr None, Some [(''p2'', ''c2'', ''subj2''), (''p1'', ''c1'', ''subj1'')])
   \<and> fst (auto_locate_series (demo_git ''bob@example.com'') None
         (demo_item [(''1/2'', ''p1''), (''2/2'', ''p2'')] None) ''main'' ''1.week'' None) =
       Inr (Some [(''c1'', ''subj1''), (''c2'', ''subj2'')])
   \<and> length [(''c1'', ''subj1''), (''c2'', ''subj2'')] =
       length (patches (demo_item [(''1/2'', ''p1''), (''2/2'', ''p2'')] None))"
proof -
  have missing: "\<exists>patch \<in> set (patches (demo_item [(''1/2'', ''p1''), (''2/2'', ''p9'')] None)).
         map_of [(''p2'', ''c2'', ''subj2''), (''p1'', ''c1'', ''subj1'')] (snd patch) = None"
    by (simp add: demo_item_def)
  have full: "fst (auto_locate_series (demo_git ''bob@example.com'') None
         (demo_item [(''1/2'', ''p1''), (''2/2'', ''p2'')] None) ''main'' ''1.week'' None) =
       Inr (Some [(''c1'', ''subj1''), (''c2'', ''subj2'')])"
    by (simp add: auto_locate_series_def demo_index_main demo_item_def dict_get_def)
  show ?thesis
    using auto_locate_series_all_or_nothing [OF demo_index_main,
        of "demo_item [(''1/2'', ''p1''), (''2/2'', ''p9'')] None"]
      auto_locate_series_all_or_nothing [OF demo_index_main,
        of "demo_item [(''1/2'', ''p1''), (''2/2'', ''p2'')] None"]
      missing full demo_index_main
    by simp
qed

text \<open>
  C2. When every (label, patch-id) pair of the item has an entry in the index,
  \<^verbatim>\<open>auto_locate_series\<close> returns the list of those entries, one per patch and in the
  order of the item's patch list: the i-th element is the entry of the i-th patch-id,
  wherever that entry stands in the index.
\<close>

theorem auto_locate_series_in_patch_order:
  assumes "get_all_commits be gd br sn None my = (Inr commits, my')"
    and "\<forall>patch \<in> set (patches jsondata). map_of commits (snd patch) \<noteq> None"
  shows "\<exists>found. auto_locate_series be gd jsondata br sn my = (Inr (Some found), my')
           \<and> map Some found = map (\<lambda>patch. map_of commits (snd patch)) (patches jsondata)"
proof -
  obtain fs where fs: "find_patches commits (patches jsondata) [] = Inr fs"
    and m: "map Some fs = map (\<lambda>p. map_of commits (snd p))
                     (filter (\<lambda>p. map_of commits (snd p) \<noteq> None) (patches jsondata))"
    using find_patches_Inr [of commits "patches jsondata" "[]"] by auto
  have all: "filter (\<lambda>p. map_of commits (snd p) \<noteq> None) (patches jsondata) = patches jsondata"
    using assms(2) by (simp add: filter_id_conv)
  have "length fs = length (patches jsondata)"
    using arg_cong [OF m, of length] all by simp
  then show ?thesis
    using assms(1) fs m all by (simp add: auto_locate_series_def)
qed

text \<open>
  The index of branch \<^verbatim>\<open>main\<close> holds \<^verbatim>\<open>p2\<close> before \<^verbatim>\<open>p1\<close>; the series lists \<^verbatim>\<open>p1\<close>
  before \<^verbatim>\<open>p2\<close>, and so does the result.
\<close>

theorem auto_locate_series_in_patch_order_witness:
  "get_all_commits (demo_git ''bob@example.com'') None ''main'' ''1.week'' None None =
     (Inr [(''p2'', ''c2'', ''subj2''), (''p1'', ''c1'', ''subj1'')],
      Some [(''p2'', ''c2'', ''subj2''), (''p1'', ''c1'', ''subj1'')])
   \<and> patches (demo_item [(''1/2'', ''p1''), (''2/2'', ''p2'')] None) =
         [(''1/2'', ''p1''), (''2/2'', ''p2'')]
   \<and> map_of [(''p2'', ''c2'', ''subj2''), (''p1'', ''c1'', ''subj1'')] ''p1'' \<noteq> None
   \<and> map_of [(''p2'', ''c2'', ''subj2''), (''p1'', ''c1'', ''subj1'')] ''p2'' \<noteq> None
   \<and> auto_locate_series (demo_git ''bob@example.com'') None
         (demo_item [(''1/2'', ''p1''), (''2/2'', ''p2'')] None) ''main'' ''1.week'' None =
       (Inr (Some [(''c1'', ''subj1''), (''c2'', ''subj2'')]),
        Some [(''p2'', ''c2'', ''subj2''), (''p1'', ''c1'', ''subj1'')])"
proof -
  have present: "\<forall>patch \<in> set (patches (demo_item [(''1/2'', ''p1''), (''2/2'', ''p2'')] None)).
         map_of [(''p2'', ''c2'', ''subj2''), (''p1'', ''c1'', ''subj1'')] (snd patch) \<noteq> None"
    by (simp add: demo_item_def)
  obtain found where
    run: "auto_locate_series (demo_git ''bob@example.com'') None
         (demo_item [(''1/2'', ''p1''), (''2/2'', ''p2'')] None) ''main'' ''1.week'' None =
       (Inr (Some found), Some [(''p2'', ''c2'', ''subj2''), (''p1'', ''c1'', ''subj1'')])"
    and aligned: "map Some found =
       map (\<lambda>patch. map_of [(''p2'', ''c2'', ''subj2''), (''p1'', ''c1'', ''subj1'')] (snd patch))
         (patches (demo_item [(''1/2'', ''p1''), (''2/2'', ''p2'')] None))"
    using auto_locate_series_in_patch_order [OF demo_index_main present] by blast
  from aligned have "map Some found = map Some [(''c1'', ''subj1''), (''c2'', ''subj2'')]"
    by (simp add: demo_item_def)
  then have "found = [(''c1'', ''subj1''), (''c2'', ''subj2'')]"
    by (simp add: map_eq_Cons_conv)
  with run demo_index_main show ?thesis by (simp add: demo_item_def)
qed

section \<open>The memoised index\<close>

lemma get_all_commits_sets_cache:
  assumes "get_all_commits be gd br sn committer my = (Inr m, my')"
  shows "my' = Some m"
  using assms
  by (auto simp: get_all_commits_def Let_def split: option.splits sum.splits if_splits prod.splits)

text \<open>
  C10. Once a call of \<^verbatim>\<open>get_all_commits\<close> has returned a mapping, every later call
  returns that mapping and leaves \<^verbatim>\<open>MY_COMMITS\<close> as it is, whatever branch, window,
  committer, git directory or repository state it is given: the arguments are not
  looked at when \<^verbatim>\<open>MY_COMMITS\<close> is set.
\<close>

theorem get_all_commits_memoized:
  assumes "get_all_commits be gd br sn committer my = (Inr m, my')"
  shows "get_all_commits be' gd' br' sn' committer' my' = (Inr m, my')"
  using get_all_commits_sets_cache [OF assms]
  by (simp add: get_all_commits_def)

lemma demo_index_dup:
  "get_all_commits (demo_git ''bob@example.com'') None ''dup'' ''1.week'' None None =
     (Inr [(''p'', ''c3'', ''old'')], Some [(''p'', ''c3'', ''old'')])"
  by (simp add: get_all_commits_def demo_simps)

text \<open>
  After the index of \<^verbatim>\<open>main\<close> was computed, asking for branch \<^verbatim>\<open>dup\<close>, another
  window and another committer still gives the index of \<^verbatim>\<open>main\<close>, although a first
  call for \<^verbatim>\<open>dup\<close> computes a different one.
\<close>

theorem get_all_commits_memoized_witness:
  "get_all_commits (demo_git ''bob@example.com'') None ''main'' ''1.week'' None None =
     (Inr [(''p2'', ''c2'', ''subj2''), (''p1'', ''c1'', ''subj1'')],
      Some [(''p2'', ''c2'', ''subj2''), (''p1'', ''c1'', ''subj1'')])
   \<and> get_all_commits (demo_git ''bob@example.com'') (Some ''/r'') ''dup'' ''1.day''
        (Some ''alice@example.com'')
        (Some [(''p2'', ''c2'', ''subj2''), (''p1'', ''c1'', ''subj1'')]) =
     (Inr [(''p2'', ''c2'', ''subj2''), (''p1'', ''c1'', ''subj1'')],
      Some [(''p2'', ''c2'', ''subj2''), (''p1'', ''c1'', ''subj1'')])
   \<and> get_all_commits (demo_git ''bob@example.com'') None ''dup'' ''1.week'' None None =
     (Inr [(''p'', ''c3'', ''old'')], Some [(''p'', ''c3'', ''old'')])"
  using get_all_commits_memoized [OF demo_index_main,
      of "demo_git ''bob@example.com''" "Some ''/r''" "''dup''" "''1.day''"
         "Some ''alice@example.com''"]
    demo_index_main demo_index_dup
  by simp

section \<open>Colliding patch-ids\<close>

text \<open>
  When the loop of \<^verbatim>\<open>get_all_commits\<close> runs to its end, every line gave an entry, and
  looking a key up in the index is looking it up in the reversed list of these
  entries: a later line overwrites an earlier one.
\<close>

lemma index_commits_Inr:
  "index_commits be gd lines acc = (Inr u, m) \<Longrightarrow>
     \<exists>es. map (index_line be gd) lines = map Inr es \<and> map_of m = map_of (rev es @ acc)"
proof (induction lines arbitrary: acc)
  case Nil
  then show ?case by simp
next
  case (Cons line rest)
  from Cons.prems obtain k v where kv: "index_line be gd line = Inr (k, v)"
    and rest: "index_commits be gd rest (AList.update k v acc) = (Inr u, m)"
    by (auto split: sum.splits)
  from Cons.IH [OF rest] obtain es where
    es: "map (index_line be gd) rest = map Inr es"
    and m: "map_of m = map_of (rev es @ AList.update k v acc)" by blast
  have "map_of (rev es @ AList.update k v acc) = map_of (rev ((k, v) # es) @ acc)"
    by (simp add: map_add_def update_conv' fun_eq_iff split: option.splits)
  with es m kv show ?case
    by (intro exI [of _ "(k, v) # es"]) simp
qed

lemma map_of_rev_last:
  assumes "\<forall>e \<in> set post. fst e \<noteq> k"
  shows "map_of (rev (pre @ (k, v) # post) @ acc) k = Some v"
  using assms by (induction post rule: rev_induct) (auto simp: map_add_def split: option.splits)

text \<open>
  C3, as the code has it. In the index that a first call of \<^verbatim>\<open>get_all_commits\<close>
  returns, the entry of a patch-id is the one of the last line of the \<^verbatim>\<open>git log\<close>
  listing that produces this patch-id. \<^verbatim>\<open>git log\<close> lists the newest commit first, so
  among commits with the same patch-id the oldest one in the window is kept.
\<close>

theorem index_keeps_last_listed:
  assumes run: "get_all_commits be gd br sn committer None = (Inr m, my')"
    and who: "(case committer of None \<Rightarrow> cfg_get (get_user_config be) ''email''
               | Some c' \<Rightarrow> Inr c') = Inr c"
    and listing: "git_get_command_lines be gd
         [''log'', ''--committer'', c, ''--no-abbrev'', ''--oneline'', ''--since'', sn, br]
       = pre @ line # post"
    and line: "index_line be gd line = Inr (p, v)"
    and later: "\<forall>l \<in> set post. \<forall>v'. index_line be gd l \<noteq> Inr (p, v')"
  shows "map_of m p = Some v"
proof -
  from run who listing obtain u where
    loop: "index_commits be gd (pre @ line # post) [] = (Inr u, m)"
    by (auto simp: get_all_commits_def split: sum.splits prod.splits)
  from index_commits_Inr [OF loop] obtain es where
    es: "map (index_line be gd) (pre @ line # post) = map Inr es"
    and m: "map_of m = map_of (rev es @ [])" by blast
  from es have "map (index_line be gd) pre @ map (index_line be gd) (line # post) = map Inr es"
    by simp
  then obtain es1 vs where "es = es1 @ vs" "map (index_line be gd) (line # post) = map Inr vs"
    by (auto simp: append_eq_map_conv)
  then obtain e es2 where split: "es = es1 @ e # es2"
    and e: "index_line be gd line = Inr e"
    and es2: "map (index_line be gd) post = map Inr es2"
    by (auto simp: Cons_eq_map_conv)
  from e line have e': "e = (p, v)" by simp
  have "\<forall>e' \<in> set es2. fst e' \<noteq> p"
  proof
    fix e' assume "e' \<in> set es2"
    then have "Inr e' \<in> set (map (index_line be gd) post)"
      using es2 by simp
    then obtain l where "l \<in> set post" "index_line be gd l = Inr e'" by auto
    with later show "fst e' \<noteq> p" by (cases e') auto
  qed
  from map_of_rev_last [OF this, of es1 v "[]"] m split e' show ?thesis by simp
qed

lemma demo_log_dup:
  "git_get_command_lines (demo_git ''bob@example.com'') None
     [''log'', ''--committer'', ''bob@example.com'', ''--no-abbrev'', ''--oneline'',
      ''--since'', ''1.week'', ''dup''] = [''c4 new''] @ ''c3 old'' # []"
  by (simp add: demo_git_def demo_lines_def)

lemma demo_line_c3:
  "index_line (demo_git ''bob@example.com'') None ''c3 old'' = Inr (''p'', ''c3'', ''old'')"
  by (simp add: demo_simps)

lemma demo_line_c4:
  "index_line (demo_git ''bob@example.com'') None ''c4 new'' = Inr (''p'', ''c4'', ''new'')"
  by (simp add: demo_simps)

text \<open>On branch \<^verbatim>\<open>dup\<close> the last line of the listing is the one of \<^verbatim>\<open>c3\<close>.\<close>

theorem index_keeps_last_listed_witness:
  "get_all_commits (demo_git ''bob@example.com'') None ''dup'' ''1.week'' None None =
     (Inr [(''p'', ''c3'', ''old'')], Some [(''p'', ''c3'', ''old'')])
   \<and> git_get_command_lines (demo_git ''bob@example.com'') None
        [''log'', ''--committer'', ''bob@example.com'', ''--no-abbrev'', ''--oneline'',
         ''--since'', ''1.week'', ''dup''] = [''c4 new''] @ ''c3 old'' # []
   \<and> index_line (demo_git ''bob@example.com'') None ''c3 old'' = Inr (''p'', ''c3'', ''old'')
   \<and> map_of [(''p'', ''c3'', ''old'')] ''p'' = Some (''c3'', ''old'')"
proof -
  have who: "(case None of None \<Rightarrow> cfg_get (get_user_config (demo_git ''bob@example.com'')) ''email''
               | Some c' \<Rightarrow> Inr c') = Inr ''bob@example.com''"
    by (simp add: demo_git_def cfg_get_def)
  have later: "\<forall>l \<in> set []. \<forall>v'.
      index_line (demo_git ''bob@example.com'') None l \<noteq> Inr (''p'', v')"
    by simp
  show ?thesis
    using index_keeps_last_listed [OF demo_index_dup who demo_log_dup demo_line_c3 later]
      demo_index_dup demo_log_dup demo_line_c3
    by simp
qed

text \<open>
  C3, as the claim has it, fails on branch \<^verbatim>\<open>dup\<close>: the listing names \<^verbatim>\<open>c4\<close>, the
  most recent commit, first and \<^verbatim>\<open>c3\<close> after it, both produce the patch-id \<^verbatim>\<open>p\<close>,
  and the index maps \<^verbatim>\<open>p\<close> to \<^verbatim>\<open>c3\<close>, not to \<^verbatim>\<open>c4\<close>.
\<close>

theorem index_most_recent_counterexample:
  "git_get_command_lines (demo_git ''bob@example.com'') None
     [''log'', ''--committer'', ''bob@example.com'', ''--no-abbrev'', ''--oneline'',
      ''--since'', ''1.week'', ''dup''] = [''c4 new'', ''c3 old'']
   \<and> index_line (demo_git ''bob@example.com'') None ''c4 new'' = Inr (''p'', ''c4'', ''new'')
   \<and> index_line (demo_git ''bob@example.com'') None ''c3 old'' = Inr (''p'', ''c3'', ''old'')
   \<and> get_all_commits (demo_git ''bob@example.com'') None ''dup'' ''1.week'' None None =
       (Inr [(''p'', ''c3'', ''old'')], Some [(''p'', ''c3'', ''old'')])
   \<and> map_of [(''p'', ''c3'', ''old'')] ''p'' \<noteq> Some (''c4'', ''new'')"
  using demo_log_dup demo_line_c4 demo_line_c3 demo_index_dup by simp

section \<open>A commit without a patch-id\<close>

text \<open>
  C9 fails on branch \<^verbatim>\<open>fresh\<close>. The root commit \<^verbatim>\<open>c0\<close> has no parent: the diff fails
  and prints nothing, \<^verbatim>\<open>git patch-id\<close> prints nothing, \<^verbatim>\<open>chunks\<close> is empty, and
  \<^verbatim>\<open>chunks[0]\<close> raises \<^verbatim>\<open>IndexError\<close>. The exception leaves \<^verbatim>\<open>get_all_commits\<close> with
  the index half built.
\<close>

theorem get_all_commits_root_commit_raises:
  "git_get_rev_diff (demo_git ''bob@example.com'') None ''c0'' = (128, [])
   \<and> git_run_command (demo_git ''bob@example.com'') None [''patch-id'', ''--stable''] (Some [])
       = (0, [])
   \<and> index_line (demo_git ''bob@example.com'') None ''c0 init'' = Inl (Raised IndexError)
   \<and> get_all_commits (demo_git ''bob@example.com'') None ''fresh'' ''1.week'' None None =
       (Inl (Raised IndexError), Some [(''p1'', ''c1'', ''subj1'')])"
  by (simp add: get_all_commits_def demo_simps)

section \<open>Pull requests\<close>

text \<open>
  The merge commit is the last line of \<^verbatim>\<open>git rev-list <commit>.. --ancestry-path\<close>.
  The range has no right end, so git takes \<^verbatim>\<open>HEAD\<close>; the branch that
  \<^verbatim>\<open>auto_locate_pr\<close> was asked about is not part of the query.
\<close>

lemma git_get_merge_id_head:
  "git_get_merge_id be gd commit_id =
     (case git_get_command_lines be gd [''rev-list'', commit_id @ ''..'', ''--ancestry-path''] of
        [] \<Rightarrow> None
      | l # ls \<Rightarrow> Some (last (l # ls)))"
  by (simp add: git_get_merge_id_def split: list.splits)

text \<open>What a match of \<^verbatim>\<open>auto_locate_pr\<close> rests on.\<close>

lemma auto_locate_pr_Some:
  assumes "auto_locate_pr be gd jsondata br = Inr (Some m)"
  shows "\<exists>pr email.
           pr_commit_id jsondata = Some pr \<and> git_commit_exists be gd pr
           \<and> br \<in> set (git_branch_contains be gd pr)
           \<and> git_get_merge_id be gd pr = Some m
           \<and> get_user_config be ''email'' = Some email
           \<and> email \<in> set (git_get_command_lines be gd [''show'', ''--format=%ae'', m])"
  using assms
  by (auto simp: auto_locate_pr_def cfg_get_def Let_def
      split: option.splits if_splits sum.splits)

text \<open>
  With the first output line of \<^verbatim>\<open>git show --format=%ae\<close> being the author's address:
  a commit authored by the local user is a match, and a commit is no match when the
  local address is on no output line.
\<close>

lemma auto_locate_pr_own_merge:
  assumes "pr_commit_id jsondata = Some pr" and "git_commit_exists be gd pr"
    and "br \<in> set (git_branch_contains be gd pr)"
    and "git_get_merge_id be gd pr = Some m" and "m \<noteq> []"
    and "git_get_command_lines be gd [''show'', ''--format=%ae'', m] = author # rest"
    and "get_user_config be ''email'' = Some author"
  shows "auto_locate_pr be gd jsondata br = Inr (Some m)"
  using assms by (auto simp: auto_locate_pr_def cfg_get_def Let_def)

lemma auto_locate_pr_foreign_merge:
  assumes "pr_commit_id jsondata = Some pr"
    and "git_get_merge_id be gd pr = Some m"
    and "get_user_config be ''email'' = Some email"
    and "email \<notin> set (git_get_command_lines be gd [''show'', ''--format=%ae'', m])"
  shows "auto_locate_pr be gd jsondata br = Inr None"
  using assms by (auto simp: auto_locate_pr_def cfg_get_def Let_def)

text \<open>
  C4 fails when the requested branch is not the one checked out. The commit \<^verbatim>\<open>X\<close>
  exists and is on \<^verbatim>\<open>main\<close>; the ancestry path from \<^verbatim>\<open>X\<close> to the tip of \<^verbatim>\<open>main\<close> is
  the merge commit \<^verbatim>\<open>M\<close>, written by the local user. \<^verbatim>\<open>HEAD\<close> is at \<^verbatim>\<open>X\<close>, the listing
  that the code asks for is empty, and \<^verbatim>\<open>auto_locate_pr\<close> for \<^verbatim>\<open>main\<close> returns \<^verbatim>\<open>None\<close>.
\<close>

theorem auto_locate_pr_ignores_target_branch:
  "git_commit_exists (demo_git ''bob@example.com'') None ''X''
   \<and> git_branch_contains (demo_git ''bob@example.com'') None ''X'' = [''main'', ''topic'']
   \<and> git_get_command_lines (demo_git ''bob@example.com'') None
        [''rev-list'', ''X..main'', ''--ancestry-path''] = [''M'']
   \<and> git_get_command_lines (demo_git ''bob@example.com'') None
        [''show'', ''--format=%ae'', ''M''] = [''bob@example.com'']
   \<and> git_get_command_lines (demo_git ''bob@example.com'') None
        [''rev-list'', ''X..'', ''--ancestry-path''] = []
   \<and> git_get_merge_id (demo_git ''bob@example.com'') None ''X'' = None
   \<and> auto_locate_pr (demo_git ''bob@example.com'') None (demo_item [] (Some ''X'')) ''main''
       = Inr None"
  by (simp add: auto_locate_pr_def git_get_merge_id_def demo_item_def demo_git_def
      demo_lines_def)

text \<open>
  C5 fails when the local address is a line of the patch that \<^verbatim>\<open>git show\<close> prints
  after the author's address. The local user is \<^verbatim>\<open>+bob@example.com\<close>; the commit \<^verbatim>\<open>N\<close>
  that integrated \<^verbatim>\<open>Y\<close> was authored by \<^verbatim>\<open>alice@example.com\<close> and adds the line
  \<^verbatim>\<open>bob@example.com\<close> to a file. The test \<^verbatim>\<open>usercfg['email'] not in out\<close> looks at
  every line, and \<^verbatim>\<open>auto_locate_pr\<close> returns \<^verbatim>\<open>N\<close>.
\<close>

theorem auto_locate_pr_accepts_other_author:
  "get_user_config (demo_git ''+bob@example.com'') ''email'' = Some ''+bob@example.com''
   \<and> git_get_merge_id (demo_git ''+bob@example.com'') None ''Y'' = Some ''N''
   \<and> git_get_command_lines (demo_git ''+bob@example.com'') None
        [''show'', ''--format=%ae'', ''N''] =
       [''alice@example.com'', ''diff --git a/f b/f'', ''--- a/f'', ''+++ b/f'',
        ''@@ -1 +1,2 @@'', '' x'', ''+bob@example.com'']
   \<and> auto_locate_pr (demo_git ''+bob@example.com'') None (demo_item [] (Some ''Y'')) ''main''
       = Inr (Some ''N'')"
  by (simp add: auto_locate_pr_def git_get_merge_id_def demo_item_def demo_git_def
      demo_lines_def cfg_get_def)

section \<open>The commands and the stale-message check\<close>

lemmas store_simps =
  list_tracked_def load_tracked_def path_suffix_def path_stem_def py_rfind_def
  demo_world_def demo_args_def demo_series_def demo_composer_def
  send_messages_def slug_of_def sub_nonword_def is_word_def py_lower_def
  os_rename_def check_stale_thanks_def py_int_def py_strip_def parse_unsigned_def
  py_isdigit_def digit_val_def py_getitem_def int_strip_def int_isspace_def
  write_tracked_def

text \<open>
  \<^verbatim>\<open>auto_thankanator\<close> never returns: each of its paths ends in \<^verbatim>\<open>sys.exit\<close> or in an
  exception. \<^verbatim>\<open>main\<close> calls \<^verbatim>\<open>check_stale_thanks\<close> after it, so in the automatic mode
  the check is never reached.
\<close>

lemma auto_thankanator_stops:
  "\<exists>e w'. auto_thankanator be cp args w = (Inl e, w')"
  by (auto simp: auto_thankanator_def split: sum.splits prod.splits)

lemma main_auto_is_auto_thankanator:
  assumes "get_user_config be ''email'' \<noteq> None" and "auto args"
  shows "main be cp args w = auto_thankanator be cp args w"
proof -
  obtain e w' where "auto_thankanator be cp args w = (Inl e, w')"
    using auto_thankanator_stops by blast
  with assms show ?thesis by (auto simp: main_def)
qed

text \<open>
  C6 fails on the small store, whose output directory holds \<^verbatim>\<open>old.thanks\<close> from an
  earlier run. The automatic mode writes a new message, renames the tracking file to
  \<^verbatim>\<open>s.am.sent\<close> and exits with status 0. Sending item 1 writes the message and renames
  the tracking file too; only then does \<^verbatim>\<open>check_stale_thanks\<close> run and exit with
  status 1.
\<close>

theorem stale_thanks_checked_too_late:
  "check_stale_thanks (outdir demo_world) = Inl (Exit 1)
   \<and> main (demo_git ''bob@example.com'') demo_composer (demo_args\<lparr>auto := True\<rparr>) demo_world =
      (Inl (Exit 0),
       \<lparr> MY_COMMITS = Some [(''p2'', ''c2'', ''subj2''), (''p1'', ''c1'', ''subj1'')],
         datadir = [(''s.am.sent'', \<lparr> mtime = 1, content = demo_series \<rparr>)],
         outdir = Some [(''old.thanks'', ''Earlier''), (''c_x_org_fix.thanks'', ''Applied'')] \<rparr>)
   \<and> main (demo_git ''bob@example.com'') demo_composer (demo_args\<lparr>send := [''1'']\<rparr>) demo_world =
      (Inl (Exit 1),
       \<lparr> MY_COMMITS = None,
         datadir = [(''s.am.sent'', \<lparr> mtime = 1, content = demo_series \<rparr>)],
         outdir = Some [(''old.thanks'', ''Earlier''), (''c_x_org_fix.thanks'', ''Applied'')] \<rparr>)"
proof (intro conjI)
  show "check_stale_thanks (outdir demo_world) = Inl (Exit 1)"
    by (simp add: store_simps)
  show "main (demo_git ''bob@example.com'') demo_composer (demo_args\<lparr>auto := True\<rparr>) demo_world =
      (Inl (Exit 0),
       \<lparr> MY_COMMITS = Some [(''p2'', ''c2'', ''subj2''), (''p1'', ''c1'', ''subj1'')],
         datadir = [(''s.am.sent'', \<lparr> mtime = 1, content = demo_series \<rparr>)],
         outdir = Some [(''old.thanks'', ''Earlier''), (''c_x_org_fix.thanks'', ''Applied'')] \<rparr>)"
    by (simp add: main_def auto_thankanator_def want_branch_def auto_locate_series_def
        get_all_commits_def dict_get_def demo_simps store_simps)
  show "main (demo_git ''bob@example.com'') demo_composer (demo_args\<lparr>send := [''1'']\<rparr>) demo_world =
      (Inl (Exit 1),
       \<lparr> MY_COMMITS = None,
         datadir = [(''s.am.sent'', \<lparr> mtime = 1, content = demo_series \<rparr>)],
         outdir = Some [(''old.thanks'', ''Earlier''), (''c_x_org_fix.thanks'', ''Applied'')] \<rparr>)"
    by (simp add: main_def send_selected_def demo_simps store_simps)
qed

text \<open>
  The selection loop stops the run with status 1, or with the \<^verbatim>\<open>KeyError\<close> of printing
  the tracked items, and in no other way; a selection that stops it leaves the store
  and the output directory as they were.
\<close>

lemma parse_digits_error: "parse_digits acc s = Inl e \<Longrightarrow> e = ValueError"
  by (induction acc s rule: parse_digits.induct) (auto split: if_splits)

lemma py_int_error: "py_int s = Inl e \<Longrightarrow> e = ValueError"
  by (auto simp: py_int_def parse_unsigned_def map_sum_def
      split: list.splits if_splits sum.splits dest: parse_digits_error)

lemma py_getitem_error: "py_getitem xs i = Inl e \<Longrightarrow> e = IndexError"
  by (auto simp: py_getitem_def split: if_splits)

lemma write_tracked_loop_error:
  "write_tracked_loop config tracked = Inl e \<Longrightarrow> e = Raised KeyError"
  by (induction tracked) (auto simp: cfg_get_def split: option.splits sum.splits)

lemma select_tracked_error:
  "select_tracked be tracked nums listing = Inl e \<Longrightarrow> e = Exit 1 \<or> e = Raised KeyError"
proof (induction nums arbitrary: listing)
  case Nil
  then show ?case by simp
next
  case (Cons num rest)
  have printed: "(case write_tracked be tracked of Inl e \<Rightarrow> Inl e | Inr u \<Rightarrow> Inl (Exit 1)) = Inl e
      \<Longrightarrow> e = Exit 1 \<or> e = Raised KeyError" for e :: stop
    by (auto simp: write_tracked_def split: sum.splits dest: write_tracked_loop_error)
  show ?case
  proof (cases "py_int num")
    case (Inl x)
    with py_int_error [OF Inl] Cons.prems printed show ?thesis by simp
  next
    case (Inr n)
    show ?thesis
    proof (cases "py_getitem tracked (n - 1)")
      case (Inl x)
      with py_getitem_error [OF Inl] Inr Cons.prems printed show ?thesis by simp
    next
      case (Inr j)
      with \<open>py_int num = Inr n\<close> Cons.prems Cons.IH [of "listing @ [j]"] show ?thesis by simp
    qed
  qed
qed

lemma send_selected_abort:
  assumes "list_tracked be (datadir w) = Inr tracked"
    and "select_tracked be tracked (send args) [] = Inl e"
  shows "send_selected be cp args w = (Inl (if tracked = [] then Exit 0 else e), w)"
  using assms by (simp add: send_selected_def)

lemma discard_selected_abort:
  assumes "list_tracked be (datadir w) = Inr tracked"
    and "''_all'' \<notin> set (discard args)"
    and "select_tracked be tracked (discard args) [] = Inl e"
  shows "discard_selected be args w = (Inl (if tracked = [] then Exit 0 else e), w)"
  using assms by (simp add: discard_selected_def)

text \<open>
  C7 fails for the number 0. The store has one tracked item, so the numbers shown to
  the user are 1 to 1. For \<^verbatim>\<open>0\<close> the index is \<open>-1\<close>, \<^verbatim>\<open>tracked[-1]\<close> is the last item
  and raises nothing: discarding \<^verbatim>\<open>0\<close> renames the tracking file and exits with status
  0, where the number \<^verbatim>\<open>2\<close> and the word \<^verbatim>\<open>x\<close> end the run with status 1 and an
  untouched store. With \<^verbatim>\<open>_all\<close> in the selection the other entries are not looked at.
\<close>

theorem selection_zero_is_accepted:
  "map_sum id length (list_tracked (demo_git ''bob@example.com'') (datadir demo_world)) = Inr 1
   \<and> py_int ''0'' = Inr 0
   \<and> main (demo_git ''bob@example.com'') demo_composer (demo_args\<lparr>discard := [''0'']\<rparr>) demo_world =
      (Inl (Exit 0),
       demo_world\<lparr>datadir := [(''s.am.discarded'', \<lparr> mtime = 1, content = demo_series \<rparr>)]\<rparr>)
   \<and> main (demo_git ''bob@example.com'') demo_composer (demo_args\<lparr>discard := [''_all'', ''x'']\<rparr>)
        demo_world =
      (Inl (Exit 0),
       demo_world\<lparr>datadir := [(''s.am.discarded'', \<lparr> mtime = 1, content = demo_series \<rparr>)]\<rparr>)
   \<and> datadir (snd (main (demo_git ''bob@example.com'') demo_composer (demo_args\<lparr>send := [''0'']\<rparr>)
        demo_world)) =
      [(''s.am.sent'', \<lparr> mtime = 1, content = demo_series \<rparr>)]
   \<and> main (demo_git ''bob@example.com'') demo_composer (demo_args\<lparr>discard := [''2'']\<rparr>) demo_world =
      (Inl (Exit 1), demo_world)
   \<and> main (demo_git ''bob@example.com'') demo_composer (demo_args\<lparr>discard := [''x'']\<rparr>) demo_world =
      (Inl (Exit 1), demo_world)"
proof (intro conjI)
  show "map_sum id length (list_tracked (demo_git ''bob@example.com'') (datadir demo_world)) = Inr 1"
    by (simp add: store_simps demo_git_def cfg_get_def)
  show "py_int ''0'' = Inr 0"
    by (simp add: store_simps)
  show "main (demo_git ''bob@example.com'') demo_composer (demo_args\<lparr>discard := [''0'']\<rparr>) demo_world =
      (Inl (Exit 0),
       demo_world\<lparr>datadir := [(''s.am.discarded'', \<lparr> mtime = 1, content = demo_series \<rparr>)]\<rparr>)"
    by (simp add: main_def discard_selected_def demo_simps store_simps)
  show "main (demo_git ''bob@example.com'') demo_composer (demo_args\<lparr>discard := [''_all'', ''x'']\<rparr>)
        demo_world =
      (Inl (Exit 0),
       demo_world\<lparr>datadir := [(''s.am.discarded'', \<lparr> mtime = 1, content = demo_series \<rparr>)]\<rparr>)"
    by (simp add: main_def discard_selected_def demo_simps store_simps)
  show "datadir (snd (main (demo_git ''bob@example.com'') demo_composer (demo_args\<lparr>send := [''0'']\<rparr>)
        demo_world)) =
      [(''s.am.sent'', \<lparr> mtime = 1, content = demo_series \<rparr>)]"
    by (simp add: main_def send_selected_def demo_simps store_simps)
  show "main (demo_git ''bob@example.com'') demo_composer (demo_args\<lparr>discard := [''2'']\<rparr>) demo_world =
      (Inl (Exit 1), demo_world)"
    by (simp add: main_def discard_selected_def demo_simps store_simps)
  show "main (demo_git ''bob@example.com'') demo_composer (demo_args\<lparr>discard := [''x'']\<rparr>) demo_world =
      (Inl (Exit 1), demo_world)"
    by (simp add: main_def discard_selected_def demo_simps store_simps)
qed

section \<open>Transitions and the active set\<close>



















end
